theory Spec2Isabelle
  imports Main "HOL-Library.Sublist"
begin

section \<open>The todo list of rrts: actions and the reducer\<close>

text \<open>
  The program is the final version of three TypeScript modules shown in NOTES.md:
  \<^verbatim>\<open>actions/types.ts\<close> (the enum of action types and the union of actions),
  \<^verbatim>\<open>actions/todos.ts\<close> (the \<^verbatim>\<open>Todo\<close> interface, the action interfaces and the
  action creator \<^verbatim>\<open>deleteTodo\<close>) and \<^verbatim>\<open>reducers/todos.ts\<close> (the reducer).
\<close>

subsection \<open>Data\<close>

text \<open>
  \<^verbatim>\<open>
  export interface Todo {
    id: number;
    title: string;
    completed: boolean;
  }
  \<close>
  The identifier is a TypeScript \<^verbatim>\<open>number\<close>; the data model of the specification
  declares identifiers to be integers, and on integers \<^verbatim>\<open>!==\<close> is plain inequality, so
  the field is an \<open>int\<close>. The field is named \<open>id'\<close> because \<open>id\<close> is the identity
  function of HOL.
\<close>

record Todo =
  id' :: int
  title :: string
  completed :: bool

text \<open>
  \<^verbatim>\<open>
  export enum ActionTypes {
    fetchTodos,
    deleteTodo,
  }
  \<close>
\<close>

datatype ActionTypes = fetchTodos | deleteTodo

text \<open>
  \<^verbatim>\<open>
  export interface FetchTodosAction {
    type: ActionTypes.fetchTodos;
    payload: Todo[];
  }
  export interface DeleteTodoAction {
    type: ActionTypes.deleteTodo;
    payload: number; // id of the Todo to be deleted
  }
  export type Action = FetchTodosAction | DeleteTodoAction;
  \<close>
  The union is a datatype with one constructor for each interface, carrying the payload
  of that interface. NOTES.md records that the store also calls every reducer with
  actions of its own when it boots ("redux dispatches its own action ... We handle those
  in our switch case/default"): an action whose \<^verbatim>\<open>type\<close> is a string the store made up
  and which has no payload. \<open>StoreAction\<close> stands for those, so that the \<^verbatim>\<open>default\<close>
  branch of the reducer is a branch of the model.
\<close>

datatype Action =
    FetchTodosAction "Todo list"
  | DeleteTodoAction int
  | StoreAction string

text \<open>
  The \<^verbatim>\<open>type\<close> field of an action: a member of the enum, or the string of an action
  that is not of this application.
\<close>

datatype action_tag = Member ActionTypes | Foreign string

fun action_type :: "Action \<Rightarrow> action_tag" where
  "action_type (FetchTodosAction payload) = Member fetchTodos"
| "action_type (DeleteTodoAction payload) = Member deleteTodo"
| "action_type (StoreAction t) = Foreign t"

subsection \<open>The action creator\<close>

text \<open>
  \<^verbatim>\<open>
  export const deleteTodo = (id: number): DeleteTodoAction => {
    return {
      type: ActionTypes.deleteTodo,
      payload: id,
    };
  };
  \<close>
  The enum member keeps its name and is written \<open>ActionTypes.deleteTodo\<close> from here on,
  as in the source.
\<close>

definition deleteTodo :: "int \<Rightarrow> Action" where
  "deleteTodo i = DeleteTodoAction i"

subsection \<open>The reducer, on values\<close>

text \<open>
  \<^verbatim>\<open>
  export const todosReducer = (state: Todo[] = [], action: Action) => {
    switch (action.type) {
      case ActionTypes.fetchTodos:
        return action.payload;
      case ActionTypes.deleteTodo:
        return state.filter((todo: Todo) => todo.id !== action.payload);
      default:
        return state;
    }
  };
  \<close>
  The first argument is optional: \<open>None\<close> is the call with \<^verbatim>\<open>undefined\<close>, for which
  the parameter takes its default value, the empty array.
\<close>

definition default_state :: "Todo list option \<Rightarrow> Todo list" where
  "default_state st = (case st of None \<Rightarrow> [] | Some s \<Rightarrow> s)"

definition todosReducer :: "Todo list option \<Rightarrow> Action \<Rightarrow> Todo list" where
  "todosReducer st action =
     (let state = default_state st in
      case action of
        FetchTodosAction payload \<Rightarrow> payload
      | DeleteTodoAction payload \<Rightarrow> filter (\<lambda>todo. id' todo \<noteq> payload) state
      | StoreAction t \<Rightarrow> state)"

subsection \<open>The reducer, on arrays in a store\<close>

text \<open>
  A TypeScript array is an object: \<^verbatim>\<open>state\<close> and \<^verbatim>\<open>action.payload\<close> are
  references, \<^verbatim>\<open>return state\<close> returns the reference it was given, and
  \<^verbatim>\<open>state.filter(...)\<close> allocates a new array and leaves the one it reads as it was.
  To say which array the reducer returns, and what it does to the arrays that exist, the
  same function is written once more over a store of arrays. A reference is the position
  of its array in the store; allocating appends.
\<close>

type_synonym ref = nat

type_synonym store = "Todo list list"

definition allocated :: "store \<Rightarrow> ref \<Rightarrow> bool" where
  "allocated h r = (r < length h)"

definition contents :: "store \<Rightarrow> ref \<Rightarrow> Todo list" where
  "contents h r = h ! r"

definition new_array :: "store \<Rightarrow> Todo list \<Rightarrow> store \<times> ref" where
  "new_array h xs = (h @ [xs], length h)"

text \<open>An action object, the payload of \<^verbatim>\<open>FetchTodosAction\<close> being a reference.\<close>

datatype ActionObj =
    FetchTodosObj ref
  | DeleteTodoObj int
  | StoreObj string

text \<open>
  The default value \<^verbatim>\<open>[]\<close> of the first parameter is an array literal, evaluated at
  each call with \<^verbatim>\<open>undefined\<close>: a new empty array.
\<close>

definition todosReducer_store :: "store \<Rightarrow> ref option \<Rightarrow> ActionObj \<Rightarrow> store \<times> ref" where
  "todosReducer_store h st action =
     (let (h1, state) = (case st of None \<Rightarrow> new_array h [] | Some r \<Rightarrow> (h, r)) in
      case action of
        FetchTodosObj payload \<Rightarrow> (h1, payload)
      | DeleteTodoObj payload \<Rightarrow>
          new_array h1 (filter (\<lambda>todo. id' todo \<noteq> payload) (contents h1 state))
      | StoreObj t \<Rightarrow> (h1, state))"

text \<open>
  The arguments of a call are well formed when every reference in them is to an array of
  the store, as every reference of a running program is.
\<close>

fun action_wf :: "store \<Rightarrow> ActionObj \<Rightarrow> bool" where
  "action_wf h (FetchTodosObj payload) = allocated h payload"
| "action_wf h (DeleteTodoObj payload) = True"
| "action_wf h (StoreObj t) = True"

fun state_wf :: "store \<Rightarrow> ref option \<Rightarrow> bool" where
  "state_wf h None = True"
| "state_wf h (Some r) = allocated h r"

text \<open>What the arguments are as values: each reference replaced by the array it is to.\<close>

fun action_value :: "store \<Rightarrow> ActionObj \<Rightarrow> Action" where
  "action_value h (FetchTodosObj payload) = FetchTodosAction (contents h payload)"
| "action_value h (DeleteTodoObj payload) = DeleteTodoAction payload"
| "action_value h (StoreObj t) = StoreAction t"

fun state_value :: "store \<Rightarrow> ref option \<Rightarrow> Todo list option" where
  "state_value h None = None"
| "state_value h (Some r) = Some (contents h r)"

subsection \<open>The reducer at run time, where a value can be missing\<close>

text \<open>
  The types of the source are checked when it is compiled, not when it runs: the list of
  a \<^verbatim>\<open>fetchTodos\<close> action is what a network response held, and the store calls the
  reducer with whatever is dispatched. At run time \<^verbatim>\<open>undefined\<close> or \<^verbatim>\<open>null\<close> can
  stand where the source expects an object, and reading a property of either throws a
  \<^verbatim>\<open>TypeError\<close>. The reducer reads a property of three things: of the action
  (\<^verbatim>\<open>action.type\<close>), of the state (\<^verbatim>\<open>state.filter\<close>) and of each item of the state
  (\<^verbatim>\<open>todo.id\<close>). The third version of the function has these three, and the payload
  it hands on as the next state, as values that can be missing, and an error result.
\<close>

datatype error = TypeError

datatype 'a nullable = Undefined | Null | Defined 'a

type_synonym todos_rt = "Todo nullable list nullable"

datatype ActionRt =
    FetchTodosRt todos_rt
  | DeleteTodoRt int
  | StoreRt string

text \<open>
  The callback \<^verbatim>\<open>(todo: Todo) => todo.id !== action.payload\<close>: reading \<^verbatim>\<open>id\<close> throws
  when the item is \<^verbatim>\<open>undefined\<close> or \<^verbatim>\<open>null\<close>.
\<close>

fun keeps :: "int \<Rightarrow> Todo nullable \<Rightarrow> error + bool" where
  "keeps payload Undefined = Inl TypeError"
| "keeps payload Null = Inl TypeError"
| "keeps payload (Defined todo) = Inr (id' todo \<noteq> payload)"

text \<open>
  \<^verbatim>\<open>Array.prototype.filter\<close>: the callback is called on the elements from the first to
  the last, an element is kept when the callback returns true, and what the callback
  throws ends the loop and is thrown by \<^verbatim>\<open>filter\<close>.
\<close>

fun filter_rt :: "('a \<Rightarrow> error + bool) \<Rightarrow> 'a list \<Rightarrow> error + 'a list" where
  "filter_rt f [] = Inr []"
| "filter_rt f (x # xs) =
     (case f x of
        Inl e \<Rightarrow> Inl e
      | Inr b \<Rightarrow>
          (case filter_rt f xs of
             Inl e \<Rightarrow> Inl e
           | Inr ys \<Rightarrow> Inr (if b then x # ys else ys)))"

text \<open>
  The default value of the first parameter replaces \<^verbatim>\<open>undefined\<close> only: \<^verbatim>\<open>null\<close>
  stays, and \<^verbatim>\<open>null.filter\<close> throws. \<^verbatim>\<open>action.type\<close> is read first, in the head of
  the \<^verbatim>\<open>switch\<close>, and throws when the action is missing. After the default is taken
  the state is never \<^verbatim>\<open>undefined\<close>; the branch for it under \<^verbatim>\<open>deleteTodo\<close> is there
  for the case distinction to be complete and is not reached.
\<close>

definition todosReducer_rt :: "todos_rt \<Rightarrow> ActionRt nullable \<Rightarrow> error + todos_rt" where
  "todosReducer_rt st action =
     (let state = (case st of Undefined \<Rightarrow> Defined [] | Null \<Rightarrow> Null | Defined xs \<Rightarrow> Defined xs) in
      case action of
        Undefined \<Rightarrow> Inl TypeError
      | Null \<Rightarrow> Inl TypeError
      | Defined (FetchTodosRt payload) \<Rightarrow> Inr payload
      | Defined (DeleteTodoRt payload) \<Rightarrow>
          (case state of
             Undefined \<Rightarrow> Inl TypeError
           | Null \<Rightarrow> Inl TypeError
           | Defined xs \<Rightarrow>
               (case filter_rt (keeps payload) xs of
                  Inl e \<Rightarrow> Inl e
                | Inr ys \<Rightarrow> Inr (Defined ys)))
      | Defined (StoreRt t) \<Rightarrow> Inr state)"

text \<open>
  The declared input domain inside the run-time one: a \<^verbatim>\<open>Todo[]\<close> is an array that is
  there and whose items are all there, the state is such an array or \<^verbatim>\<open>undefined\<close>, and
  the action is there.
\<close>

definition todos_rt_of :: "Todo list \<Rightarrow> todos_rt" where
  "todos_rt_of xs = Defined (map Defined xs)"

fun state_rt_of :: "Todo list option \<Rightarrow> todos_rt" where
  "state_rt_of None = Undefined"
| "state_rt_of (Some xs) = todos_rt_of xs"

fun action_rt_of :: "Action \<Rightarrow> ActionRt nullable" where
  "action_rt_of (FetchTodosAction payload) = Defined (FetchTodosRt (todos_rt_of payload))"
| "action_rt_of (DeleteTodoAction payload) = Defined (DeleteTodoRt payload)"
| "action_rt_of (StoreAction t) = Defined (StoreRt t)"

subsection \<open>Properties of lists of todos\<close>

text \<open>The identifiers of a list, in order, and the invariant that no two are equal.\<close>

definition ids :: "Todo list \<Rightarrow> int list" where
  "ids xs = map id' xs"

definition unique_ids :: "Todo list \<Rightarrow> bool" where
  "unique_ids xs = distinct (ids xs)"

text \<open>The lists an action brings into the state have unique identifiers.\<close>

fun payload_unique :: "Action \<Rightarrow> bool" where
  "payload_unique (FetchTodosAction payload) = unique_ids payload"
| "payload_unique (DeleteTodoAction payload) = True"
| "payload_unique (StoreAction t) = True"

subsection \<open>Example data\<close>

text \<open>
  The items of the examples of the specification, \<^verbatim>\<open>{1,"a"}\<close> and \<^verbatim>\<open>{2,"b"}\<close>, a
  third item that has the identifier of the first, and the string of an action that the
  store sends at start.
\<close>

definition todo_a :: Todo where
  "todo_a = \<lparr>id' = 1, title = ''a'', completed = False\<rparr>"

definition todo_b :: Todo where
  "todo_b = \<lparr>id' = 2, title = ''b'', completed = False\<rparr>"

definition todo_c :: Todo where
  "todo_c = \<lparr>id' = 1, title = ''c'', completed = True\<rparr>"

definition init_tag :: string where
  "init_tag = ''@@redux/INIT''"

section \<open>Properties of the reducer on values\<close>

subsection \<open>Fetching replaces the list\<close>

text \<open>
  C1. For every state and every \<^verbatim>\<open>fetchTodos\<close> action, the reducer returns the payload
  of the action itself: nothing of the prior state is kept or merged, whether the state is
  a list or was left \<^verbatim>\<open>undefined\<close>.
\<close>

theorem fetch_returns_payload:
  "todosReducer (Some S) (FetchTodosAction P) = P \<and> todosReducer None (FetchTodosAction P) = P"
  by (simp add: todosReducer_def)

subsection \<open>Deleting by identifier\<close>

lemma filter_ids_count:
  "count_list (filter (\<lambda>todo. id' todo \<noteq> k) S) t = (if id' t = k then 0 else count_list S t)"
  by (induction S) auto

text \<open>
  Where identifiers are unique, the filter takes one element out of the list and joins
  what was before it to what was after it.
\<close>

lemma filter_unique_split:
  assumes "distinct (map id' S)" and "t \<in> set S"
  shows "\<exists>xs ys. S = xs @ t # ys \<and> filter (\<lambda>todo. id' todo \<noteq> id' t) S = xs @ ys"
proof -
  from assms(2) obtain xs ys where S: "S = xs @ t # ys"
    by (auto dest: split_list)
  with assms(1) have notin: "id' t \<notin> id' ` set xs" "id' t \<notin> id' ` set ys"
    by auto
  have "\<forall>x \<in> set xs \<union> set ys. id' x \<noteq> id' t"
  proof
    fix x assume "x \<in> set xs \<union> set ys"
    then have "id' x \<in> id' ` set xs \<or> id' x \<in> id' ` set ys" by blast
    with notin show "id' x \<noteq> id' t" by metis
  qed
  then have "filter (\<lambda>todo. id' todo \<noteq> id' t) (xs @ t # ys) = xs @ ys"
    by (simp add: filter_id_conv)
  with S show ?thesis by blast
qed

text \<open>
  The filter excludes every item that has the identifier, not one item: of a state in
  which two items have identifier 1, deleting 1 leaves nothing, neither of the two lists
  that are the state without one of its items.
\<close>

theorem delete_duplicates_counterexample:
  "todo_a \<in> set [todo_a, todo_c] \<and> id' todo_a = 1
   \<and> todosReducer (Some [todo_a, todo_c]) (DeleteTodoAction 1) = []
   \<and> todosReducer (Some [todo_a, todo_c]) (DeleteTodoAction 1) \<noteq> [todo_c]
   \<and> todosReducer (Some [todo_a, todo_c]) (DeleteTodoAction 1) \<noteq> [todo_a]"
  by (simp add: todosReducer_def default_state_def todo_a_def todo_c_def)

text \<open>
  C2, amended. For every state \<open>S\<close> that contains an item \<open>t\<close> with identifier \<open>k\<close>, the
  reducer applied to \<open>S\<close> and \<^verbatim>\<open>deleteTodo\<close> of \<open>k\<close> returns \<open>S\<close> without the items whose
  identifier is \<open>k\<close> and with the remaining items in their order: the result is a
  subsequence of \<open>S\<close>; an item occurs in it as often as in \<open>S\<close> when its identifier is
  not \<open>k\<close> and not at all when it is \<open>k\<close>; the result is shorter than \<open>S\<close>; and where
  the identifiers of \<open>S\<close> are unique, exactly the one item \<open>t\<close> is excluded.
\<close>

theorem delete_excludes_item:
  assumes "t \<in> set S" and "id' t = k"
  shows "subseq (todosReducer (Some S) (DeleteTodoAction k)) S
       \<and> (\<forall>x. count_list (todosReducer (Some S) (DeleteTodoAction k)) x
              = (if id' x = k then 0 else count_list S x))
       \<and> length (todosReducer (Some S) (DeleteTodoAction k)) < length S
       \<and> (unique_ids S \<longrightarrow>
            (\<exists>xs ys. S = xs @ t # ys \<and> todosReducer (Some S) (DeleteTodoAction k) = xs @ ys))"
proof -
  let ?R = "filter (\<lambda>todo. id' todo \<noteq> k) S"
  have R: "todosReducer (Some S) (DeleteTodoAction k) = ?R"
    by (simp add: todosReducer_def default_state_def)
  have 1: "subseq ?R S" by simp
  have 2: "\<forall>x. count_list ?R x = (if id' x = k then 0 else count_list S x)"
    by (simp add: filter_ids_count)
  have 3: "length ?R < length S"
    using assms by (auto intro: length_filter_less)
  have 4: "unique_ids S \<longrightarrow> (\<exists>xs ys. S = xs @ t # ys \<and> ?R = xs @ ys)"
    using filter_unique_split [of S t] assms by (simp add: unique_ids_def ids_def)
  from 1 2 3 4 show ?thesis unfolding R by blast
qed

text \<open>
  The example of the specification: deleting identifier 1 from \<^verbatim>\<open>[{1,"a"},{2,"b"}]\<close>
  leaves \<^verbatim>\<open>[{2,"b"}]\<close>.
\<close>

theorem delete_excludes_item_witness:
  "todo_a \<in> set [todo_a, todo_b] \<and> id' todo_a = 1 \<and> unique_ids [todo_a, todo_b]
   \<and> todosReducer (Some [todo_a, todo_b]) (DeleteTodoAction 1) = [todo_b]
   \<and> subseq (todosReducer (Some [todo_a, todo_b]) (DeleteTodoAction 1)) [todo_a, todo_b]
   \<and> (\<exists>xs ys. [todo_a, todo_b] = xs @ todo_a # ys
         \<and> todosReducer (Some [todo_a, todo_b]) (DeleteTodoAction 1) = xs @ ys)"
proof -
  have h1: "todo_a \<in> set [todo_a, todo_b]" by simp
  have h2: "id' todo_a = 1" by (simp add: todo_a_def)
  have h3: "unique_ids [todo_a, todo_b]"
    by (simp add: unique_ids_def ids_def todo_a_def todo_b_def)
  have r: "todosReducer (Some [todo_a, todo_b]) (DeleteTodoAction 1) = [todo_b]"
    by (simp add: todosReducer_def default_state_def todo_a_def todo_b_def)
  from delete_excludes_item [OF h1 h2] h1 h2 h3 r show ?thesis by blast
qed

text \<open>
  C4. For every state \<open>S\<close> and every identifier \<open>k\<close> that no item of \<open>S\<close> has, the
  reducer applied to \<open>S\<close> and \<^verbatim>\<open>deleteTodo\<close> of \<open>k\<close> returns a list equal to \<open>S\<close>.
\<close>

theorem delete_absent_id:
  assumes "k \<notin> set (ids S)"
  shows "todosReducer (Some S) (DeleteTodoAction k) = S"
proof -
  from assms have "\<forall>todo \<in> set S. id' todo \<noteq> k"
    by (auto simp: ids_def)
  then show ?thesis
    by (simp add: todosReducer_def default_state_def filter_id_conv)
qed

theorem delete_absent_id_witness:
  "3 \<notin> set (ids [todo_a, todo_b])
   \<and> todosReducer (Some [todo_a, todo_b]) (DeleteTodoAction 3) = [todo_a, todo_b]"
proof -
  have h: "3 \<notin> set (ids [todo_a, todo_b])"
    by (simp add: ids_def todo_a_def todo_b_def)
  from delete_absent_id [OF h] h show ?thesis by simp
qed

text \<open>
  C9. For every state \<open>S\<close>, in which several items may have the identifier \<open>k\<close>, the
  reducer applied to \<open>S\<close> and \<^verbatim>\<open>deleteTodo\<close> of \<open>k\<close> removes every item whose identifier
  is \<open>k\<close>, not the first one only: no item of the result has identifier \<open>k\<close>, and the
  result is shorter than \<open>S\<close> by the number of items of \<open>S\<close> with identifier \<open>k\<close>.
\<close>

theorem delete_removes_every_item:
  "k \<notin> set (ids (todosReducer (Some S) (DeleteTodoAction k)))
   \<and> length (todosReducer (Some S) (DeleteTodoAction k))
       + length (filter (\<lambda>todo. id' todo = k) S) = length S"
proof -
  have "length (filter (\<lambda>todo. id' todo = k) S) + length (filter (\<lambda>todo. id' todo \<noteq> k) S)
        = length S"
    by (rule sum_length_filter_compl)
  then show ?thesis
    by (auto simp: todosReducer_def default_state_def ids_def)
qed

text \<open>Two items with identifier 1, the first and the last of three: both are removed.\<close>

theorem delete_removes_every_item_witness:
  "todosReducer (Some [todo_a, todo_b, todo_c]) (DeleteTodoAction 1) = [todo_b]
   \<and> 1 \<notin> set (ids (todosReducer (Some [todo_a, todo_b, todo_c]) (DeleteTodoAction 1)))"
  using delete_removes_every_item [of 1 "[todo_a, todo_b, todo_c]"]
  by (simp add: todosReducer_def default_state_def todo_a_def todo_b_def todo_c_def)

text \<open>
  C10. Deleting is idempotent: for every state and every identifier \<open>k\<close>, applying the
  reducer with \<^verbatim>\<open>deleteTodo\<close> of \<open>k\<close> to the result of applying it with the same action
  gives the list that applying it once gives.
\<close>

theorem delete_idempotent:
  "todosReducer (Some (todosReducer st (DeleteTodoAction k))) (DeleteTodoAction k)
   = todosReducer st (DeleteTodoAction k)"
  by (simp add: todosReducer_def default_state_def)

subsection \<open>Actions the reducer does not know\<close>

text \<open>
  C3. For every state \<open>S\<close> and every action whose type is neither
  \<^verbatim>\<open>ActionTypes.fetchTodos\<close> nor \<^verbatim>\<open>ActionTypes.deleteTodo\<close>, as the actions are that
  the store sends when it starts, the reducer returns \<open>S\<close> unchanged.
\<close>

theorem unknown_action_keeps_state:
  assumes "action_type a \<noteq> Member fetchTodos"
    and "action_type a \<noteq> Member ActionTypes.deleteTodo"
  shows "todosReducer (Some S) a = S"
  using assms by (cases a) (simp_all add: todosReducer_def default_state_def)

theorem unknown_action_keeps_state_witness:
  "action_type (StoreAction init_tag) \<noteq> Member fetchTodos
   \<and> action_type (StoreAction init_tag) \<noteq> Member ActionTypes.deleteTodo
   \<and> todosReducer (Some [todo_a, todo_b]) (StoreAction init_tag) = [todo_a, todo_b]"
  using unknown_action_keeps_state [of "StoreAction init_tag" "[todo_a, todo_b]"] by simp

subsection \<open>Unique identifiers\<close>

text \<open>
  The reducer returns the payload of a \<^verbatim>\<open>fetchTodos\<close> action as it is, and nothing
  checks the payload: from the empty state, which has unique identifiers, fetching a list
  in which two items have identifier 1 gives a state in which identifiers are not unique.
\<close>

theorem fetch_duplicates_counterexample:
  "unique_ids [] \<and> \<not> unique_ids (todosReducer (Some []) (FetchTodosAction [todo_a, todo_c]))"
  by (simp add: unique_ids_def ids_def todosReducer_def todo_a_def todo_c_def)

text \<open>
  C5, amended. Unique identifiers are an invariant of the state as long as the lists
  that are fetched have unique identifiers: for every state \<open>S\<close> with pairwise distinct
  identifiers and every action (\<^verbatim>\<open>fetchTodos\<close> with a payload of pairwise distinct
  identifiers, \<^verbatim>\<open>deleteTodo\<close>, or unknown), the list the reducer returns has pairwise
  distinct identifiers.
\<close>

theorem unique_ids_preserved:
  assumes "unique_ids S" and "payload_unique a"
  shows "unique_ids (todosReducer (Some S) a)"
proof (cases a)
  case (FetchTodosAction payload)
  with assms(2) show ?thesis by (simp add: todosReducer_def)
next
  case (DeleteTodoAction payload)
  with assms(1) show ?thesis
    by (simp add: todosReducer_def default_state_def unique_ids_def ids_def distinct_map_filter)
next
  case (StoreAction t)
  with assms(1) show ?thesis by (simp add: todosReducer_def default_state_def)
qed

theorem unique_ids_preserved_witness:
  "unique_ids [todo_a] \<and> payload_unique (FetchTodosAction [todo_b, todo_c])
   \<and> unique_ids (todosReducer (Some [todo_a]) (FetchTodosAction [todo_b, todo_c]))"
proof -
  have h1: "unique_ids [todo_a]" by (simp add: unique_ids_def ids_def)
  have h2: "payload_unique (FetchTodosAction [todo_b, todo_c])"
    by (simp add: unique_ids_def ids_def todo_b_def todo_c_def)
  from unique_ids_preserved [OF h1 h2] h1 h2 show ?thesis by simp
qed

subsection \<open>The action creator\<close>

text \<open>
  C8. For every identifier \<open>k\<close>, \<^verbatim>\<open>deleteTodo(k)\<close> is the \<^verbatim>\<open>DeleteTodoAction\<close> whose
  type is \<^verbatim>\<open>ActionTypes.deleteTodo\<close> and whose payload is \<open>k\<close>. The creator is a function
  of \<open>k\<close> alone and its value is that action: it reads and writes nothing else.
\<close>

theorem deleteTodo_action:
  "deleteTodo k = DeleteTodoAction k \<and> action_type (deleteTodo k) = Member ActionTypes.deleteTodo"
  by (simp add: deleteTodo_def)

section \<open>Properties of the reducer on a store\<close>

subsection \<open>The equations of the three branches\<close>

lemma reducer_store_Some:
  "todosReducer_store h (Some s) (FetchTodosObj p) = (h, p)"
  "todosReducer_store h (Some s) (DeleteTodoObj k)
     = new_array h (filter (\<lambda>todo. id' todo \<noteq> k) (contents h s))"
  "todosReducer_store h (Some s) (StoreObj t) = (h, s)"
  by (simp_all add: todosReducer_store_def)

lemma reducer_store_None:
  "todosReducer_store h None (FetchTodosObj p) = (h @ [[]], p)"
  "todosReducer_store h None (DeleteTodoObj k) = (h @ [[], []], Suc (length h))"
  "todosReducer_store h None (StoreObj t) = (h @ [[]], length h)"
  by (simp_all add: todosReducer_store_def new_array_def contents_def)

subsection \<open>The store only grows\<close>

lemma reducer_store_prefix:
  assumes "todosReducer_store h st a = (h', r)"
  shows "prefix h h'"
proof (cases st)
  case None
  with assms show ?thesis
    by (cases a) (auto simp: reducer_store_None)
next
  case (Some s)
  with assms show ?thesis
    by (cases a) (auto simp: reducer_store_Some new_array_def)
qed

text \<open>In a store that extends another, every array of the other is where and as it was.\<close>

lemma prefix_contents:
  assumes "prefix h h'" and "allocated h q"
  shows "allocated h' q \<and> contents h' q = contents h q"
  using assms by (auto simp: prefix_def allocated_def contents_def nth_append)

subsection \<open>The store reducer computes the value reducer\<close>

lemma reducer_store_result:
  assumes "state_wf h st" and "action_wf h a" and "todosReducer_store h st a = (h', r)"
  shows "allocated h' r
       \<and> contents h' r = todosReducer (state_value h st) (action_value h a)"
proof (cases st)
  case None
  with assms show ?thesis
    by (cases a)
       (auto simp: reducer_store_None todosReducer_def default_state_def
                   allocated_def contents_def nth_append)
next
  case (Some s)
  with assms show ?thesis
    by (cases a)
       (auto simp: reducer_store_Some todosReducer_def default_state_def new_array_def
                   allocated_def contents_def nth_append)
qed

subsection \<open>Totality and the absence of effects\<close>

text \<open>The run-time reducer does throw: on a missing action, on a state or an item that is \<^verbatim>\<open>null\<close>.\<close>

lemma reducer_rt_throws:
  "todosReducer_rt st Undefined = Inl TypeError"
  "todosReducer_rt st Null = Inl TypeError"
  "todosReducer_rt Null (Defined (DeleteTodoRt k)) = Inl TypeError"
  "todosReducer_rt (Defined [Defined todo_b, Null]) (Defined (DeleteTodoRt 1)) = Inl TypeError"
  by (simp_all add: todosReducer_rt_def todo_b_def)

text \<open>On a list whose items are all there, the loop ends without an error and is the filter.\<close>

lemma filter_rt_defined:
  "filter_rt (keeps k) (map Defined xs) = Inr (map Defined (filter (\<lambda>todo. id' todo \<noteq> k) xs))"
  by (induction xs) simp_all

lemma reducer_rt_declared:
  "todosReducer_rt (state_rt_of st) (action_rt_of a) = Inr (todos_rt_of (todosReducer st a))"
proof (cases a)
  case (FetchTodosAction payload)
  then show ?thesis
    by (simp add: todosReducer_rt_def todosReducer_def)
next
  case (DeleteTodoAction payload)
  then show ?thesis
    by (cases st)
       (simp_all add: todosReducer_rt_def todosReducer_def default_state_def todos_rt_of_def
                      filter_rt_defined)
next
  case (StoreAction t)
  then show ?thesis
    by (cases st)
       (simp_all add: todosReducer_rt_def todosReducer_def default_state_def todos_rt_of_def)
qed

text \<open>
  C7. The reducer is total on its declared input domain, any array of todos or
  \<^verbatim>\<open>undefined\<close> for the state and any action. For every such call the run-time reducer,
  which throws on other inputs, returns normally, and what it returns is the list that
  the reducer on values computes: the loop of the filter ends and no branch throws. On
  the store, the call returns a reference to an array of the resulting store that holds
  that same list, and the resulting store extends the store of the call, so that every
  array that existed is unchanged: the call has no effect but allocation.
\<close>

theorem reducer_total_no_effect:
  assumes "state_wf h st" and "action_wf h a"
  shows "todosReducer_rt (state_rt_of (state_value h st)) (action_rt_of (action_value h a))
           = Inr (todos_rt_of (todosReducer (state_value h st) (action_value h a)))
       \<and> (\<exists>h' r. todosReducer_store h st a = (h', r)
           \<and> allocated h' r
           \<and> contents h' r = todosReducer (state_value h st) (action_value h a)
           \<and> prefix h h')"
proof -
  obtain h' r where res: "todosReducer_store h st a = (h', r)"
    by (cases "todosReducer_store h st a")
  from reducer_store_result [OF assms res] reducer_store_prefix [OF res] res
  have "\<exists>h' r. todosReducer_store h st a = (h', r)
           \<and> allocated h' r
           \<and> contents h' r = todosReducer (state_value h st) (action_value h a)
           \<and> prefix h h'"
    by blast
  with reducer_rt_declared show ?thesis by blast
qed

text \<open>
  Deleting identifier 1 from the array \<^verbatim>\<open>[{1,"a"},{2,"b"}]\<close> at reference 0: the
  run-time reducer returns \<^verbatim>\<open>[{2,"b"}]\<close>, and on the store the result is a second array
  after the first.
\<close>

theorem reducer_total_no_effect_witness:
  "state_wf [[todo_a, todo_b]] (Some 0) \<and> action_wf [[todo_a, todo_b]] (DeleteTodoObj 1)
   \<and> todosReducer_rt (Defined [Defined todo_a, Defined todo_b]) (Defined (DeleteTodoRt 1))
       = Inr (Defined [Defined todo_b])
   \<and> todosReducer_store [[todo_a, todo_b]] (Some 0) (DeleteTodoObj 1)
       = ([[todo_a, todo_b], [todo_b]], 1)
   \<and> todosReducer_rt (state_rt_of (state_value [[todo_a, todo_b]] (Some 0)))
         (action_rt_of (action_value [[todo_a, todo_b]] (DeleteTodoObj 1)))
       = Inr (todos_rt_of (todosReducer (state_value [[todo_a, todo_b]] (Some 0))
                             (action_value [[todo_a, todo_b]] (DeleteTodoObj 1))))
   \<and> (\<exists>h' r. todosReducer_store [[todo_a, todo_b]] (Some 0) (DeleteTodoObj 1) = (h', r)
           \<and> allocated h' r
           \<and> contents h' r = todosReducer (state_value [[todo_a, todo_b]] (Some 0))
                                 (action_value [[todo_a, todo_b]] (DeleteTodoObj 1))
           \<and> prefix [[todo_a, todo_b]] h')"
proof -
  have h1: "state_wf [[todo_a, todo_b]] (Some 0)" by (simp add: allocated_def)
  have h2: "action_wf [[todo_a, todo_b]] (DeleteTodoObj 1)" by simp
  have r1: "todosReducer_rt (Defined [Defined todo_a, Defined todo_b]) (Defined (DeleteTodoRt 1))
              = Inr (Defined [Defined todo_b])"
    by (simp add: todosReducer_rt_def todo_a_def todo_b_def)
  have r2: "todosReducer_store [[todo_a, todo_b]] (Some 0) (DeleteTodoObj 1)
              = ([[todo_a, todo_b], [todo_b]], 1)"
    by (simp add: todosReducer_store_def new_array_def contents_def todo_a_def todo_b_def)
  from reducer_total_no_effect [OF h1 h2] h1 h2 r1 r2 show ?thesis by blast
qed

subsection \<open>Which array is returned\<close>

text \<open>
  The \<^verbatim>\<open>default\<close> branch is \<^verbatim>\<open>return state\<close>: for an action of the store, the
  reference returned is the reference given, to an array that existed before the call,
  and no array is made.
\<close>

theorem default_returns_input_counterexample:
  "snd (todosReducer_store [[todo_a, todo_b]] (Some 0) (StoreObj init_tag)) = 0
   \<and> allocated [[todo_a, todo_b]]
        (snd (todosReducer_store [[todo_a, todo_b]] (Some 0) (StoreObj init_tag)))
   \<and> fst (todosReducer_store [[todo_a, todo_b]] (Some 0) (StoreObj init_tag))
       = [[todo_a, todo_b]]"
  by (simp add: todosReducer_store_def allocated_def)

text \<open>
  C6, amended. For every state \<open>S\<close> and every action, the reducer never mutates its
  input sequence: after the call the array of the state holds what it held before. The
  sequence returned is a newly made one for \<^verbatim>\<open>deleteTodo\<close> (a reference that was not
  allocated before the call); for \<^verbatim>\<open>fetchTodos\<close> it is the payload array of the action,
  and for any other action it is the input array itself.
\<close>

theorem reducer_input_unchanged:
  assumes "allocated h s" and "action_wf h a" and "todosReducer_store h (Some s) a = (h', r)"
  shows "contents h' s = contents h s
       \<and> (case a of
            FetchTodosObj payload \<Rightarrow> r = payload
          | DeleteTodoObj payload \<Rightarrow> \<not> allocated h r \<and> allocated h' r
          | StoreObj t \<Rightarrow> r = s)"
proof -
  from assms(3) have "prefix h h'" by (rule reducer_store_prefix)
  with assms(1) have unchanged: "contents h' s = contents h s"
    by (simp add: prefix_contents)
  have "case a of
            FetchTodosObj payload \<Rightarrow> r = payload
          | DeleteTodoObj payload \<Rightarrow> \<not> allocated h r \<and> allocated h' r
          | StoreObj t \<Rightarrow> r = s"
    using assms(3)
    by (cases a) (auto simp: reducer_store_Some new_array_def allocated_def)
  with unchanged show ?thesis by simp
qed

theorem reducer_input_unchanged_witness:
  "allocated [[todo_a, todo_b]] 0 \<and> action_wf [[todo_a, todo_b]] (DeleteTodoObj 1)
   \<and> todosReducer_store [[todo_a, todo_b]] (Some 0) (DeleteTodoObj 1)
       = ([[todo_a, todo_b], [todo_b]], 1)
   \<and> contents [[todo_a, todo_b], [todo_b]] 0 = contents [[todo_a, todo_b]] 0
   \<and> \<not> allocated [[todo_a, todo_b]] 1 \<and> allocated [[todo_a, todo_b], [todo_b]] 1"
proof -
  have h1: "allocated [[todo_a, todo_b]] 0" by (simp add: allocated_def)
  have h2: "action_wf [[todo_a, todo_b]] (DeleteTodoObj 1)" by simp
  have h3: "todosReducer_store [[todo_a, todo_b]] (Some 0) (DeleteTodoObj 1)
             = ([[todo_a, todo_b], [todo_b]], 1)"
    by (simp add: todosReducer_store_def new_array_def contents_def todo_a_def todo_b_def)
  from reducer_input_unchanged [OF h1 h2 h3] h1 h2 h3 show ?thesis by simp
qed

end
